theory Spec2Isabelle
  imports Complex_Main
begin

section \<open>JavaScript numbers and array reads\<close>

text \<open>
  The post-processing code of \<^verbatim>\<open>coco-ssd/src/index.ts\<close> works on JavaScript numbers
  held in \<^verbatim>\<open>Float32Array\<close>s and plain arrays. A value is a finite number (modelled
  as a real), one of the two infinities, \<^verbatim>\<open>NaN\<close>, or \<^verbatim>\<open>undefined\<close>, which is
  what a read outside an array yields. Arithmetic and comparison turn \<^verbatim>\<open>undefined\<close>
  into \<^verbatim>\<open>NaN\<close>. The rounding of double-precision arithmetic and the sign of zero are
  not modelled; the rounding to single precision on storing into a \<^verbatim>\<open>Float32Array\<close>
  is (see \<open>fround\<close> below).
\<close>

datatype jsval = Num real | Infinity | NegInfinity | NaN | Undefined

text \<open>The comparison \<^verbatim>\<open>a > b\<close>: false as soon as one side is \<^verbatim>\<open>NaN\<close> or \<^verbatim>\<open>undefined\<close>.\<close>

fun js_gt :: "jsval \<Rightarrow> jsval \<Rightarrow> bool" where
  "js_gt (Num a) (Num b) = (b < a)"
| "js_gt Infinity (Num b) = True"
| "js_gt Infinity NegInfinity = True"
| "js_gt (Num a) NegInfinity = True"
| "js_gt _ _ = False"

definition inf_of_sign :: "real \<Rightarrow> jsval" where
  "inf_of_sign s = (if 0 < s then Infinity else if s < 0 then NegInfinity else NaN)"

fun js_neg :: "jsval \<Rightarrow> jsval" where
  "js_neg (Num a) = Num (- a)"
| "js_neg Infinity = NegInfinity"
| "js_neg NegInfinity = Infinity"
| "js_neg _ = NaN"

fun js_add :: "jsval \<Rightarrow> jsval \<Rightarrow> jsval" where
  "js_add (Num a) (Num b) = Num (a + b)"
| "js_add (Num a) Infinity = Infinity"
| "js_add (Num a) NegInfinity = NegInfinity"
| "js_add Infinity (Num b) = Infinity"
| "js_add NegInfinity (Num b) = NegInfinity"
| "js_add Infinity Infinity = Infinity"
| "js_add NegInfinity NegInfinity = NegInfinity"
| "js_add _ _ = NaN"

definition js_sub :: "jsval \<Rightarrow> jsval \<Rightarrow> jsval" where
  "js_sub a b = js_add a (js_neg b)"

fun js_mul :: "jsval \<Rightarrow> jsval \<Rightarrow> jsval" where
  "js_mul (Num a) (Num b) = Num (a * b)"
| "js_mul (Num a) Infinity = inf_of_sign a"
| "js_mul (Num a) NegInfinity = inf_of_sign (- a)"
| "js_mul Infinity (Num b) = inf_of_sign b"
| "js_mul NegInfinity (Num b) = inf_of_sign (- b)"
| "js_mul Infinity Infinity = Infinity"
| "js_mul Infinity NegInfinity = NegInfinity"
| "js_mul NegInfinity Infinity = NegInfinity"
| "js_mul NegInfinity NegInfinity = Infinity"
| "js_mul _ _ = NaN"

text \<open>Division; a zero divisor is taken as \<^verbatim>\<open>+0\<close>.\<close>

fun js_div :: "jsval \<Rightarrow> jsval \<Rightarrow> jsval" where
  "js_div (Num a) (Num b) = (if b = 0 then inf_of_sign a else Num (a / b))"
| "js_div (Num a) Infinity = Num 0"
| "js_div (Num a) NegInfinity = Num 0"
| "js_div Infinity (Num b) = (if b < 0 then NegInfinity else Infinity)"
| "js_div NegInfinity (Num b) = (if b < 0 then Infinity else NegInfinity)"
| "js_div _ _ = NaN"

text \<open>
  \<^verbatim>\<open>Number.MIN_VALUE\<close> is the smallest positive double, \<open>2\<^sup>-\<^sup>1\<^sup>0\<^sup>7\<^sup>4\<close>
  (about \<^verbatim>\<open>5e-324\<close>); it is not a negative number.
\<close>

definition MIN_VALUE :: jsval where
  "MIN_VALUE = Num (1 / 2 ^ 1074)"

text \<open>
  Reading \<^verbatim>\<open>xs[k]\<close>: the element when \<open>k\<close> is an index of the array, and
  \<^verbatim>\<open>undefined\<close> otherwise (no exception is raised).
\<close>

definition elem_at :: "'a list \<Rightarrow> int \<Rightarrow> 'a option" where
  "elem_at xs k = (if 0 \<le> k \<and> k < int (length xs) then Some (xs ! nat k) else None)"

definition rd :: "jsval list \<Rightarrow> int \<Rightarrow> jsval" where
  "rd xs k = (case elem_at xs k of None \<Rightarrow> Undefined | Some v \<Rightarrow> v)"

text \<open>
  Rounding to single precision, as storing a number into a \<^verbatim>\<open>Float32Array\<close> (or
  \<^verbatim>\<open>Math.fround\<close>) does: to the nearest single-precision value, ties to the one with
  an even significand, and to an infinity from \<open>2\<^sup>1\<^sup>2\<^sup>8 - 2\<^sup>1\<^sup>0\<^sup>3\<close> on.
  A single-precision value is a multiple of \<open>2\<^sup>e\<^sup>-\<^sup>2\<^sup>3\<close>, where \<open>e\<close> is the
  exponent of its binade, at least \<open>-126\<close> (the subnormal numbers are the multiples of
  \<open>2\<^sup>-\<^sup>1\<^sup>4\<^sup>9\<close>) and at most \<open>127\<close>.
\<close>

definition pow2 :: "int \<Rightarrow> real" where
  "pow2 e = (if 0 \<le> e then 2 ^ nat e else 1 / 2 ^ nat (- e))"

definition round_half_even :: "real \<Rightarrow> int" where
  "round_half_even x =
     (let f = \<lfloor>x\<rfloor>; d = x - of_int f
      in if d < 1 / 2 then f else if 1 / 2 < d then f + 1 else if even f then f else f + 1)"

text \<open>
  The exponent of the binade of \<open>a \<ge> 0\<close>, searched upwards from \<open>e\<close>: the first
  exponent whose binade ends above \<open>a\<close>, and \<open>127\<close> when there is none.
\<close>

function float32_exponent_from :: "int \<Rightarrow> real \<Rightarrow> int" where
  "float32_exponent_from e a =
     (if e < 127 \<and> pow2 (e + 1) \<le> a then float32_exponent_from (e + 1) a else e)"
  by pat_completeness auto
termination
  by (relation "measure (\<lambda>(e, a). nat (127 - e))") auto

declare float32_exponent_from.simps [simp del]

definition fround :: "real \<Rightarrow> jsval" where
  "fround x =
     (let a = \<bar>x\<bar>;
          ulp = pow2 (float32_exponent_from (- 126) a - 23);
          r = of_int (round_half_even (a / ulp)) * ulp
      in if 2 ^ 128 \<le> r then (if 0 < x then Infinity else NegInfinity)
         else Num (if 0 \<le> x then r else - r))"

text \<open>
  \<^verbatim>\<open>new Float32Array(xs)\<close> converts every entry to a number and rounds it to single
  precision.
\<close>

fun toFloat32 :: "jsval \<Rightarrow> jsval" where
  "toFloat32 (Num x) = fround x"
| "toFloat32 Undefined = NaN"
| "toFloat32 v = v"

definition Float32Array :: "jsval list \<Rightarrow> jsval list" where
  "Float32Array xs = map toFloat32 xs"

section \<open>Score and class extraction\<close>

text \<open>
  The inner loop shared by both extractors,
  \<^verbatim>\<open>for (j = 0; j < numClasses; j++) if (scores[e] > max) { max = scores[e]; index = j; }\<close>,
  where the index expression \<open>e\<close> depends on \<open>j\<close>. The list holds the values of \<open>j\<close>
  still to visit, the pair is \<^verbatim>\<open>(max, index)\<close>.
\<close>

fun max_scan :: "jsval list \<Rightarrow> (int \<Rightarrow> int) \<Rightarrow> int list \<Rightarrow> jsval \<times> int \<Rightarrow> jsval \<times> int" where
  "max_scan scores e [] (mx, index) = (mx, index)"
| "max_scan scores e (j # js) (mx, index) =
     (if js_gt (rd scores (e j)) mx
      then max_scan scores e js (rd scores (e j), j)
      else max_scan scores e js (mx, index))"

text \<open>\<^verbatim>\<open>calculateMaxScores\<close> (dense layout): returns \<^verbatim>\<open>[maxes, classes]\<close>.\<close>

definition calculateMaxScores :: "jsval list \<Rightarrow> int \<Rightarrow> int \<Rightarrow> jsval list \<times> int list" where
  "calculateMaxScores scores numBoxes numClasses =
     (let rows = map (\<lambda>i. max_scan scores (\<lambda>j. i * numClasses + j)
                             [0..numClasses - 1] (MIN_VALUE, - 1))
                     [0..numBoxes - 1]
      in (map fst rows, map snd rows))"

text \<open>\<^verbatim>\<open>calculateMaxScoresYolov5\<close> (packed layout): returns \<^verbatim>\<open>classes\<close> only.\<close>

definition calculateMaxScoresYolov5 :: "jsval list \<Rightarrow> int \<Rightarrow> int \<Rightarrow> int list" where
  "calculateMaxScoresYolov5 scores numBoxes numClasses =
     map (\<lambda>i. snd (max_scan scores (\<lambda>j. i * numClasses + (i + 1) * 5 + j)
                      [0..numClasses - 1] (MIN_VALUE, - 1)))
         [0..numBoxes - 1]"

text \<open>
  The packed-mode extractor as the specification words it: anchor \<open>i\<close>'s row has width
  \<open>numClasses + 5\<close> and its class scores start at \<open>i * (numClasses + 5) + 5\<close>.
\<close>

definition spec_packed_classes :: "jsval list \<Rightarrow> int \<Rightarrow> int \<Rightarrow> int list" where
  "spec_packed_classes scores numBoxes numClasses =
     map (\<lambda>i. snd (max_scan scores (\<lambda>j. i * (numClasses + 5) + 5 + j)
                      [0..numClasses - 1] (MIN_VALUE, - 1)))
         [0..numBoxes - 1]"

section \<open>Confidence extraction and box decoding (packed layout)\<close>

text \<open>\<^verbatim>\<open>getConfidenceYoloV5\<close>: the fifth field of every row.\<close>

definition getConfidenceYoloV5 :: "jsval list \<Rightarrow> int \<Rightarrow> int \<Rightarrow> jsval list" where
  "getConfidenceYoloV5 scores numBoxes numClasses =
     map (\<lambda>i. rd scores (i * (numClasses + 5) + 4)) [0..numBoxes - 1]"

text \<open>
  The body of the loop of \<^verbatim>\<open>getBoxesYoloV5\<close> for anchor \<open>i\<close>: the four values written
  to \<^verbatim>\<open>boxes[i * 4]\<close>, \<^verbatim>\<open>boxes[i * 4 + 1]\<close>, \<^verbatim>\<open>boxes[i * 4 + 2]\<close> and
  \<^verbatim>\<open>boxes[i * 4 + 3]\<close>.
\<close>

definition decode_row :: "jsval list \<Rightarrow> int \<Rightarrow> jsval \<Rightarrow> int \<Rightarrow> jsval list" where
  "decode_row scores numClasses scale_by i =
     (let x = rd scores (i * (numClasses + 5) + 0);
          y = rd scores (i * (numClasses + 5) + 1);
          width = rd scores (i * (numClasses + 5) + 2);
          height = rd scores (i * (numClasses + 5) + 3);
          x1 = js_div (js_sub x (js_div width (Num 2))) scale_by;
          y1 = js_div (js_sub y (js_div height (Num 2))) scale_by;
          x2 = js_div (js_add x (js_div width (Num 2))) scale_by;
          y2 = js_div (js_add y (js_div height (Num 2))) scale_by
      in [y1, x1, y2, x2])"

definition getBoxesYoloV5 :: "jsval list \<Rightarrow> int \<Rightarrow> int \<Rightarrow> jsval \<Rightarrow> jsval list" where
  "getBoxesYoloV5 scores numBoxes numClasses scale_by =
     Float32Array (concat (map (decode_row scores numClasses scale_by) [0..numBoxes - 1]))"

section \<open>Result assembly\<close>

record DetectedObject =
  bbox :: "jsval \<times> jsval \<times> jsval \<times> jsval"
  class_name :: string
  score :: jsval

text \<open>
  Reading \<^verbatim>\<open>.displayName\<close> of \<^verbatim>\<open>undefined\<close> throws a \<^verbatim>\<open>TypeError\<close>; so does
  calling a method of \<^verbatim>\<open>undefined\<close>.
\<close>

datatype error = TypeError

text \<open>
  The table \<^verbatim>\<open>CLASSES\<close> is imported from \<^verbatim>\<open>./classes\<close>, which is not among the
  sources; it is a parameter here, a finite map from an index to the display name of the
  entry stored there. An index with no entry reads as \<^verbatim>\<open>undefined\<close>; so does the index
  \<^verbatim>\<open>undefined + 1\<close>, which is \<^verbatim>\<open>NaN\<close>.
\<close>

type_synonym class_table = "int \<rightharpoonup> string"

definition lookup_class :: "class_table \<Rightarrow> int list \<Rightarrow> int \<Rightarrow> string option" where
  "lookup_class CLASSES classes k =
     (case elem_at classes k of None \<Rightarrow> None | Some c \<Rightarrow> CLASSES (c + 1))"

text \<open>The body of the loop of \<^verbatim>\<open>buildDetectedObjects\<close> for the kept index \<open>k = indexes[i]\<close>.\<close>

definition detected_object ::
  "class_table \<Rightarrow> jsval \<Rightarrow> jsval \<Rightarrow> jsval list \<Rightarrow> jsval list \<Rightarrow> int list \<Rightarrow> int
   \<Rightarrow> error + DetectedObject" where
  "detected_object CLASSES width height boxes scores classes k =
     (let minY = js_mul (rd boxes (k * 4 + 0)) height;
          minX = js_mul (rd boxes (k * 4 + 1)) width;
          maxY = js_mul (rd boxes (k * 4 + 2)) height;
          maxX = js_mul (rd boxes (k * 4 + 3)) width
      in case lookup_class CLASSES classes k of
           None \<Rightarrow> Inl TypeError
         | Some displayName \<Rightarrow>
             Inr \<lparr>bbox = (minX, minY, js_sub maxX minX, js_sub maxY minY),
                  class_name = displayName,
                  score = rd scores k\<rparr>)"

text \<open>The loop over \<^verbatim>\<open>indexes\<close>; \<open>objects\<close> is the array built so far.\<close>

fun build_loop ::
  "class_table \<Rightarrow> jsval \<Rightarrow> jsval \<Rightarrow> jsval list \<Rightarrow> jsval list \<Rightarrow> int list \<Rightarrow> int list
   \<Rightarrow> DetectedObject list \<Rightarrow> error + DetectedObject list" where
  "build_loop CLASSES width height boxes scores classes [] objects = Inr objects"
| "build_loop CLASSES width height boxes scores classes (k # ks) objects =
     (case detected_object CLASSES width height boxes scores classes k of
        Inl e \<Rightarrow> Inl e
      | Inr obj \<Rightarrow> build_loop CLASSES width height boxes scores classes ks (objects @ [obj]))"

definition buildDetectedObjects ::
  "class_table \<Rightarrow> jsval \<Rightarrow> jsval \<Rightarrow> jsval list \<Rightarrow> jsval list \<Rightarrow> int list \<Rightarrow> int list
   \<Rightarrow> error + DetectedObject list" where
  "buildDetectedObjects CLASSES width height boxes scores indexes classes =
     build_loop CLASSES width height boxes scores classes indexes []"

section \<open>The detection call\<close>

text \<open>
  \<^verbatim>\<open>infer\<close> calls the TensorFlow.js library for everything but the post-processing:
  reading the pixels, resizing, running the network and non-max suppression. Those are
  parameters of the model. An image has a height and a width and is either a tensor
  already or an element whose pixels are read.
\<close>

record Image =
  is_tensor :: bool
  img_height :: int
  img_width :: int
  pixels :: "nat list"

text \<open>
  The output tensor \<^verbatim>\<open>result[1]\<close> of the packed network, of shape
  \<^verbatim>\<open>[1, shape1, shape2]\<close>, and the two output tensors of the dense network:
  \<^verbatim>\<open>result[0]\<close> of shape \<^verbatim>\<open>[1, shape1, shape2]\<close> and the boxes \<^verbatim>\<open>result[1]\<close>.
\<close>

record YoloResult =
  yolo_data :: "jsval list"
  yolo_shape1 :: int
  yolo_shape2 :: int

record SsdResult =
  ssd_scores :: "jsval list"
  ssd_shape1 :: int
  ssd_shape2 :: int
  ssd_boxes :: "jsval list"

record Engine =
  execute_yolov5 :: "Image \<Rightarrow> jsval \<Rightarrow> YoloResult"
  execute_ssd :: "Image \<Rightarrow> SsdResult"
  nonMaxSuppression :: "jsval list \<Rightarrow> jsval list \<Rightarrow> jsval \<Rightarrow> jsval \<Rightarrow> jsval \<Rightarrow> int list"

text \<open>
  \<^verbatim>\<open>infer\<close>. In the \<^verbatim>\<open>yolov5s\<close> branch \<^verbatim>\<open>yolov5_img\<close> is assigned only when
  \<^verbatim>\<open>img\<close> is not a tensor, so a tensor input ends in a \<^verbatim>\<open>TypeError\<close> at
  \<^verbatim>\<open>yolov5_img.expandDims(0)\<close>. In the other branch \<^verbatim>\<open>height\<close> and \<^verbatim>\<open>width\<close>
  are \<^verbatim>\<open>batched.shape[1]\<close> and \<^verbatim>\<open>batched.shape[2]\<close>, the dimensions of the image.
\<close>

definition infer ::
  "class_table \<Rightarrow> Engine \<Rightarrow> string \<Rightarrow> Image \<Rightarrow> jsval \<Rightarrow> jsval \<Rightarrow> jsval \<Rightarrow> jsval
   \<Rightarrow> error + DetectedObject list" where
  "infer CLASSES tf base img maxNumBoxes nmsThresh minScore inputSize =
     (if base = ''yolov5s'' then
        (if is_tensor img then Inl TypeError
         else
           let result = execute_yolov5 tf img inputSize;
               yolov5_result = yolo_data result;
               num_objects = yolo_shape1 result;
               num_classes = yolo_shape2 result - 5;
               yolov5classes = calculateMaxScoresYolov5 yolov5_result num_objects num_classes;
               yolov5_confidence = getConfidenceYoloV5 yolov5_result num_objects num_classes;
               yolov5_box_corners =
                 getBoxesYoloV5 yolov5_result num_objects num_classes inputSize;
               yolov5_indexes =
                 nonMaxSuppression tf yolov5_box_corners yolov5_confidence
                   maxNumBoxes nmsThresh minScore
           in buildDetectedObjects CLASSES (Num 640) (Num 480)
                yolov5_box_corners yolov5_confidence yolov5_indexes yolov5classes)
      else
        let height = Num (of_int (img_height img));
            width = Num (of_int (img_width img));
            result = execute_ssd tf img;
            scores = ssd_scores result;
            boxes = ssd_boxes result;
            (maxScores, classes) =
              calculateMaxScores scores (ssd_shape1 result) (ssd_shape2 result);
            indexes = nonMaxSuppression tf boxes maxScores maxNumBoxes nmsThresh minScore
        in buildDetectedObjects CLASSES width height boxes maxScores indexes classes)"

text \<open>\<^verbatim>\<open>detect\<close> passes its arguments on to \<^verbatim>\<open>infer\<close>.\<close>

definition detect ::
  "class_table \<Rightarrow> Engine \<Rightarrow> string \<Rightarrow> Image \<Rightarrow> jsval \<Rightarrow> jsval \<Rightarrow> jsval \<Rightarrow> jsval
   \<Rightarrow> error + DetectedObject list" where
  "detect CLASSES tf base img maxNumBoxes nmsThresh minScore inputSize =
     infer CLASSES tf base img maxNumBoxes nmsThresh minScore inputSize"

text \<open>
  The values of the local variables \<^verbatim>\<open>yolov5classes\<close> / \<^verbatim>\<open>classes\<close> and
  \<^verbatim>\<open>yolov5_indexes\<close> / \<^verbatim>\<open>indexes\<close> of \<^verbatim>\<open>infer\<close>: the class indices and the
  kept indices that it hands to \<^verbatim>\<open>buildDetectedObjects\<close>.
\<close>

definition class_indexes :: "Engine \<Rightarrow> string \<Rightarrow> Image \<Rightarrow> jsval \<Rightarrow> int list" where
  "class_indexes tf base img inputSize =
     (if base = ''yolov5s'' then
        (let result = execute_yolov5 tf img inputSize
         in calculateMaxScoresYolov5 (yolo_data result) (yolo_shape1 result)
              (yolo_shape2 result - 5))
      else
        (let result = execute_ssd tf img
         in snd (calculateMaxScores (ssd_scores result) (ssd_shape1 result)
                   (ssd_shape2 result))))"

definition kept_indexes ::
  "Engine \<Rightarrow> string \<Rightarrow> Image \<Rightarrow> jsval \<Rightarrow> jsval \<Rightarrow> jsval \<Rightarrow> jsval \<Rightarrow> int list" where
  "kept_indexes tf base img maxNumBoxes nmsThresh minScore inputSize =
     (if base = ''yolov5s'' then
        (let result = execute_yolov5 tf img inputSize;
             num_objects = yolo_shape1 result;
             num_classes = yolo_shape2 result - 5
         in nonMaxSuppression tf
              (getBoxesYoloV5 (yolo_data result) num_objects num_classes inputSize)
              (getConfidenceYoloV5 (yolo_data result) num_objects num_classes)
              maxNumBoxes nmsThresh minScore)
      else
        (let result = execute_ssd tf img
         in nonMaxSuppression tf (ssd_boxes result)
              (fst (calculateMaxScores (ssd_scores result) (ssd_shape1 result)
                      (ssd_shape2 result)))
              maxNumBoxes nmsThresh minScore))"

section \<open>Suppression\<close>

text \<open>
  Suppression is \<^verbatim>\<open>tf.image.nonMaxSuppression\<close> of the TensorFlow.js core library,
  which \<^verbatim>\<open>infer\<close> only calls. The definitions of this section follow the
  specification's description of the suppressor (greedy non-max suppression), on real
  scores and boxes; a box is \<open>(y1, x1, y2, x2)\<close>.
\<close>

type_synonym box = "real \<times> real \<times> real \<times> real"

text \<open>Modelled from the spec: the box of index \<open>k\<close> in the flat buffer, four floats per box.\<close>

definition box_at :: "real list \<Rightarrow> nat \<Rightarrow> box" where
  "box_at boxes k =
     (boxes ! (k * 4), boxes ! (k * 4 + 1), boxes ! (k * 4 + 2), boxes ! (k * 4 + 3))"

text \<open>
  Modelled from the spec: intersection over union of axis-aligned boxes; a box of zero or
  negative area has zero IoU with anything.
\<close>

fun area :: "box \<Rightarrow> real" where
  "area (y1, x1, y2, x2) = (y2 - y1) * (x2 - x1)"

fun intersection :: "box \<Rightarrow> box \<Rightarrow> real" where
  "intersection (ay1, ax1, ay2, ax2) (by1, bx1, by2, bx2) =
     max 0 (min ay2 by2 - max ay1 by1) * max 0 (min ax2 bx2 - max ax1 bx1)"

definition iou :: "box \<Rightarrow> box \<Rightarrow> real" where
  "iou a b =
     (if area a \<le> 0 \<or> area b \<le> 0 then 0
      else intersection a b / (area a + area b - intersection a b))"

text \<open>
  Modelled from the spec: steps 1 and 2 of the suppressor. Boxes with a score below
  \<open>minScore\<close> are discarded and the others sorted by descending score; the sort is
  stable, so equal scores stay in the order of their indices.
\<close>

definition candidates :: "real list \<Rightarrow> real \<Rightarrow> nat list" where
  "candidates scores minScore =
     sort_key (\<lambda>k. - (scores ! k))
       (filter (\<lambda>k. \<not> scores ! k < minScore) [0..<length scores])"

text \<open>
  Modelled from the spec: steps 3 and 4 of the suppressor. The best remaining candidate is
  selected and the candidates whose IoU with it exceeds the threshold are removed, until
  no candidate remains or the output has \<open>maxOutputCount\<close> entries; the number counts the
  entries still allowed.
\<close>

fun greedy :: "real list \<Rightarrow> real \<Rightarrow> nat \<Rightarrow> nat list \<Rightarrow> nat list" where
  "greedy boxes iouThreshold 0 cs = []"
| "greedy boxes iouThreshold (Suc n) [] = []"
| "greedy boxes iouThreshold (Suc n) (c # cs) =
     c # greedy boxes iouThreshold n
           (filter (\<lambda>d. \<not> iouThreshold < iou (box_at boxes c) (box_at boxes d)) cs)"

text \<open>
  Modelled from the spec: the suppressor (\<^verbatim>\<open>tf.image.nonMaxSuppression\<close>, whose code is
  not among the sources). A box buffer whose length is not four times the number of
  scores is a shape mismatch, which aborts: the result is \<open>None\<close>.
\<close>

definition suppress :: "real list \<Rightarrow> real list \<Rightarrow> nat \<Rightarrow> real \<Rightarrow> real \<Rightarrow> nat list option" where
  "suppress boxes scores maxOutputCount iouThreshold minScore =
     (if length boxes \<noteq> 4 * length scores then None
      else Some (greedy boxes iouThreshold maxOutputCount (candidates scores minScore)))"

section \<open>Concrete inputs\<close>

text \<open>
  A class table with entries at 0, 1 and 2 and one with entries at 1 and 2; a 1280 by 720
  image element; and an engine whose packed network answers with one anchor row
  \<^verbatim>\<open>[cx, cy, w, h, conf, s0, s1]\<close>, whose dense network answers with one anchor with
  two class scores and one box, and whose suppression keeps anchor 0 (the only anchor,
  with a ranking score above the threshold 0.5 used below). All buffer entries are
  single-precision values, and so are the corners \<open>(0.25, 0.25, 0.5, 0.5)\<close> that the
  packed row decodes to at scale 640.
\<close>

definition example_classes :: class_table where
  "example_classes = [0 \<mapsto> ''person'', 1 \<mapsto> ''bicycle'', 2 \<mapsto> ''car'']"

definition classes_from_one :: class_table where
  "classes_from_one = [1 \<mapsto> ''person'', 2 \<mapsto> ''bicycle'']"

definition example_image :: Image where
  "example_image = \<lparr>is_tensor = False, img_height = 720, img_width = 1280, pixels = []\<rparr>"

definition example_engine :: Engine where
  "example_engine =
     \<lparr>execute_yolov5 = (\<lambda>img inputSize.
         \<lparr>yolo_data = [Num 240, Num 240, Num 160, Num 160, Num 0.75, Num 0.5, Num 0.25],
          yolo_shape1 = 1, yolo_shape2 = 7\<rparr>),
      execute_ssd = (\<lambda>img.
         \<lparr>ssd_scores = [Num 0.25, Num 0.75], ssd_shape1 = 1, ssd_shape2 = 2,
          ssd_boxes = [Num 0.25, Num 0.25, Num 0.5, Num 0.5]\<rparr>),
      nonMaxSuppression = (\<lambda>boxes scores maxNumBoxes nmsThresh minScore. [0])\<rparr>"

text \<open>The same engine when suppression keeps nothing.\<close>

definition example_engine_none :: Engine where
  "example_engine_none =
     example_engine\<lparr>nonMaxSuppression := (\<lambda>boxes scores maxNumBoxes nmsThresh minScore. [])\<rparr>"

section \<open>Properties of rounding to single precision\<close>

lemma pow2_powi: "pow2 e = 2 powi e"
  by (simp add: pow2_def power_int_def inverse_eq_divide power_one_over)

lemma pow2_mono: "d \<le> e \<Longrightarrow> pow2 d \<le> pow2 e"
  using power_int_increasing [of d e "2::real"] by (simp add: pow2_powi)

lemma float32_exponent_from_eq:
  "s \<le> e \<Longrightarrow> e \<le> 127 \<Longrightarrow> (s < e \<longrightarrow> pow2 e \<le> a) \<Longrightarrow> (e < 127 \<longrightarrow> a < pow2 (e + 1))
   \<Longrightarrow> float32_exponent_from s a = e"
proof (induction "nat (e - s)" arbitrary: s)
  case 0
  then have "s = e" by simp
  with 0 show ?case by (subst float32_exponent_from.simps) auto
next
  case (Suc n)
  then have lt: "s < e" by linarith
  have "pow2 (s + 1) \<le> pow2 e"
    using lt by (intro pow2_mono) auto
  with Suc.prems lt have ge: "pow2 (s + 1) \<le> a" by simp
  have "float32_exponent_from (s + 1) a = e"
  proof (rule Suc.hyps(1))
    show "n = nat (e - (s + 1))" using Suc.hyps(2) by linarith
    show "s + 1 \<le> e" using lt by simp
    show "e \<le> 127" by fact
    show "s + 1 < e \<longrightarrow> pow2 e \<le> a" using Suc.prems lt by simp
    show "e < 127 \<longrightarrow> a < pow2 (e + 1)" by fact
  qed
  with ge lt Suc.prems(2) show ?case
    by (subst float32_exponent_from.simps) auto
qed



lemma fround_quarter: "fround (1 / 4) = Num (1 / 4)"
proof -
  have "float32_exponent_from (- 126) (1 / 4) = - 2"
    by (rule float32_exponent_from_eq) (simp_all add: pow2_def)
  then show ?thesis
    by (simp add: fround_def round_half_even_def Let_def pow2_def)
qed

lemma fround_half: "fround (1 / 2) = Num (1 / 2)"
proof -
  have "float32_exponent_from (- 126) (1 / 2) = - 1"
    by (rule float32_exponent_from_eq) (simp_all add: pow2_def)
  then show ?thesis
    by (simp add: fround_def round_half_even_def Let_def pow2_def)
qed


section \<open>Properties of the extractors\<close>

lemma max_scan_index:
  "index = - 1 \<or> index \<in> S \<Longrightarrow> set js \<subseteq> S \<Longrightarrow>
   snd (max_scan scores e js (mx, index)) = - 1 \<or> snd (max_scan scores e js (mx, index)) \<in> S"
  by (induction js arbitrary: mx index) auto

lemma max_scan_index_range:
  "snd (max_scan scores e [0..numClasses - 1] (MIN_VALUE, - 1)) = - 1
   \<or> (0 \<le> snd (max_scan scores e [0..numClasses - 1] (MIN_VALUE, - 1))
      \<and> snd (max_scan scores e [0..numClasses - 1] (MIN_VALUE, - 1)) \<le> numClasses - 1)"
  using max_scan_index [of "- 1" "{0..numClasses - 1}" "[0..numClasses - 1]" scores e MIN_VALUE]
  by auto

text \<open>Unfolding rules for evaluating the pipeline on concrete buffers.\<close>

lemmas extractor_eval =
  calculateMaxScores_def calculateMaxScoresYolov5_def getConfidenceYoloV5_def
  getBoxesYoloV5_def Float32Array_def decode_row_def rd_def elem_at_def js_sub_def
  MIN_VALUE_def Let_def upto.simps

lemmas assembler_eval =
  buildDetectedObjects_def detected_object_def lookup_class_def rd_def elem_at_def
  js_sub_def Let_def

lemmas detect_eval =
  detect_def infer_def class_indexes_def kept_indexes_def example_classes_def
  example_engine_def example_image_def extractor_eval
  buildDetectedObjects_def detected_object_def lookup_class_def
  fround_quarter fround_half

text \<open>
  Claim C1. The index expression of the packed-mode extractor,
  \<open>i * numClasses + (i + 1) * 5 + j\<close>, is the documented packed-row address
  \<open>i * (numClasses + 5) + 5 + j\<close>; hence \<^verbatim>\<open>calculateMaxScoresYolov5\<close> is the extractor
  that scans the \<open>numClasses\<close> class fields of each anchor's row.
\<close>

theorem packed_index_is_row_stride:
  "i * numClasses + (i + 1) * 5 + j = i * (numClasses + 5) + 5 + (j::int)
   \<and> calculateMaxScoresYolov5 scores numBoxes numClasses
       = spec_packed_classes scores numBoxes numClasses"
proof
  show "i * numClasses + (i + 1) * 5 + j = i * (numClasses + 5) + 5 + j"
    by (simp add: algebra_simps)
next
  have "(\<lambda>j. i * numClasses + (i + 1) * 5 + j) = (\<lambda>j. i * (numClasses + 5) + 5 + j)" for i :: int
    by (rule ext) (simp add: algebra_simps)
  then show "calculateMaxScoresYolov5 scores numBoxes numClasses
       = spec_packed_classes scores numBoxes numClasses"
    by (simp add: calculateMaxScoresYolov5_def spec_packed_classes_def)
qed

text \<open>
  Claim C2, evaluated on the code. The dense-mode scan starts from
  \<^verbatim>\<open>Number.MIN_VALUE\<close>, the smallest positive number, so a negative or zero score never
  replaces it: on the one-anchor rows \<open>[-2, -1]\<close> and \<open>[0, 0]\<close> the returned maximum
  is \<^verbatim>\<open>Number.MIN_VALUE\<close> and the returned class index is \<open>-1\<close>, although the maximum
  of the first row, \<open>-1\<close>, stands at position 1 and that of the second at position 0.
\<close>

theorem dense_scan_ignores_nonpositive_scores:
  "calculateMaxScores [Num (- 2), Num (- 1)] 1 2 = ([MIN_VALUE], [- 1])
   \<and> calculateMaxScores [Num 0, Num 0] 1 2 = ([MIN_VALUE], [- 1])
   \<and> js_gt (Num (- 1)) (Num (- 2)) \<and> \<not> js_gt (Num (- 1)) MIN_VALUE"
  by (simp add: calculateMaxScores_def rd_def elem_at_def MIN_VALUE_def upto.simps)

text \<open>
  Claim C10. For a number of boxes \<open>numBoxes \<ge> 0\<close> (and any number of classes), both
  extractors return arrays of exactly \<open>numBoxes\<close> entries, and every class index they
  return is \<open>-1\<close> or lies between \<open>0\<close> and \<open>numClasses - 1\<close>.
\<close>

theorem extractor_output_shape:
  "0 \<le> numBoxes \<Longrightarrow>
     int (length (fst (calculateMaxScores scores numBoxes numClasses))) = numBoxes
   \<and> int (length (snd (calculateMaxScores scores numBoxes numClasses))) = numBoxes
   \<and> int (length (calculateMaxScoresYolov5 scores numBoxes numClasses)) = numBoxes
   \<and> (\<forall>c \<in> set (snd (calculateMaxScores scores numBoxes numClasses))
             \<union> set (calculateMaxScoresYolov5 scores numBoxes numClasses).
         c = - 1 \<or> (0 \<le> c \<and> c \<le> numClasses - 1))"
proof (intro conjI ballI)
  assume "0 \<le> numBoxes"
  then show "int (length (fst (calculateMaxScores scores numBoxes numClasses))) = numBoxes"
    by (simp add: calculateMaxScores_def Let_def)
  from \<open>0 \<le> numBoxes\<close>
  show "int (length (snd (calculateMaxScores scores numBoxes numClasses))) = numBoxes"
    by (simp add: calculateMaxScores_def Let_def)
  from \<open>0 \<le> numBoxes\<close>
  show "int (length (calculateMaxScoresYolov5 scores numBoxes numClasses)) = numBoxes"
    by (simp add: calculateMaxScoresYolov5_def)
next
  fix c
  assume "c \<in> set (snd (calculateMaxScores scores numBoxes numClasses))
             \<union> set (calculateMaxScoresYolov5 scores numBoxes numClasses)"
  then obtain e where "c = snd (max_scan scores e [0..numClasses - 1] (MIN_VALUE, - 1))"
    by (auto simp: calculateMaxScores_def calculateMaxScoresYolov5_def Let_def)
  then show "c = - 1 \<or> (0 \<le> c \<and> c \<le> numClasses - 1)"
    using max_scan_index_range [of scores e numClasses] by simp
qed

theorem extractor_output_shape_witness:
  "(0::int) \<le> 2
   \<and> int (length (fst (calculateMaxScores
        [Num 0.2, Num 0.7, Num 0.9, Num 0.1, Num 0.9, Num 0.3, Num 0.6,
         Num 1, Num 1, Num 1, Num 1, Num 0.5, Num 0.1, Num 0.4] 2 2))) = 2
   \<and> snd (calculateMaxScores
        [Num 0.2, Num 0.7, Num 0.9, Num 0.1, Num 0.9, Num 0.3, Num 0.6,
         Num 1, Num 1, Num 1, Num 1, Num 0.5, Num 0.1, Num 0.4] 2 2) = [1, 0]
   \<and> calculateMaxScoresYolov5
        [Num 0.2, Num 0.7, Num 0.9, Num 0.1, Num 0.9, Num 0.3, Num 0.6,
         Num 1, Num 1, Num 1, Num 1, Num 0.5, Num 0.1, Num 0.4] 2 2 = [1, 1]"
proof -
  let ?scores = "[Num 0.2, Num 0.7, Num 0.9, Num 0.1, Num 0.9, Num 0.3, Num 0.6,
         Num 1, Num 1, Num 1, Num 1, Num 0.5, Num 0.1, Num 0.4]"
  have h: "(0::int) \<le> 2" by simp
  have d: "snd (calculateMaxScores ?scores 2 2) = [1, 0]"
    by (simp add: extractor_eval)
  have p: "calculateMaxScoresYolov5 ?scores 2 2 = [1, 1]"
    by (simp add: extractor_eval)
  from extractor_output_shape [OF h, of ?scores 2] h d p
  show ?thesis by simp
qed

section \<open>Properties of the box decoder\<close>








section \<open>Properties of the result assembler\<close>

lemma build_loop_Inr:
  "build_loop CLASSES width height boxes scores classes ks objects = Inr objs \<longleftrightarrow>
   (\<exists>ys. objs = objects @ ys
        \<and> map (detected_object CLASSES width height boxes scores classes) ks = map Inr ys)"
proof (induction ks arbitrary: objects)
  case Nil
  then show ?case by auto
next
  case (Cons k ks)
  show ?case
  proof (cases "detected_object CLASSES width height boxes scores classes k")
    case (Inl e)
    then show ?thesis by (auto simp: map_eq_Cons_conv)
  next
    case (Inr obj)
    then show ?thesis
      by (auto simp: Cons.IH map_eq_Cons_conv)
  qed
qed

lemma buildDetectedObjects_Inr:
  "buildDetectedObjects CLASSES width height boxes scores indexes classes = Inr objs \<longleftrightarrow>
   map (detected_object CLASSES width height boxes scores classes) indexes = map Inr objs"
  by (simp add: buildDetectedObjects_def build_loop_Inr)

lemma build_loop_Inl:
  "k \<in> set ks \<Longrightarrow> detected_object CLASSES width height boxes scores classes k = Inl e \<Longrightarrow>
   build_loop CLASSES width height boxes scores classes ks objects = Inl TypeError"
proof (induction ks arbitrary: objects)
  case Nil
  then show ?case by simp
next
  case (Cons a ks)
  show ?case
  proof (cases "detected_object CLASSES width height boxes scores classes a")
    case (Inl e')
    then show ?thesis by (cases e') simp
  next
    case (Inr obj)
    with Cons.prems have "k \<in> set ks" by auto
    with Cons.IH Cons.prems(2) Inr show ?thesis by simp
  qed
qed

lemma detected_object_Inr:
  "detected_object CLASSES width height boxes scores classes k = Inr obj \<Longrightarrow>
     bbox obj = (js_mul (rd boxes (k * 4 + 1)) width,
                 js_mul (rd boxes (k * 4 + 0)) height,
                 js_sub (js_mul (rd boxes (k * 4 + 3)) width) (js_mul (rd boxes (k * 4 + 1)) width),
                 js_sub (js_mul (rd boxes (k * 4 + 2)) height) (js_mul (rd boxes (k * 4 + 0)) height))
   \<and> score obj = rd scores k
   \<and> lookup_class CLASSES classes k = Some (class_name obj)"
  by (auto simp: detected_object_def Let_def split: option.splits)

text \<open>
  Claim C6. When \<^verbatim>\<open>buildDetectedObjects\<close> returns, it returns one object per kept
  index, in the order of the kept indices, and the object of the kept index \<open>k\<close> has
  \<open>bbox = (minX, minY, maxX - minX, maxY - minY)\<close>, where \<open>minY = box.y1 * height\<close>,
  \<open>minX = box.x1 * width\<close>, \<open>maxY = box.y2 * height\<close>, \<open>maxX = box.x2 * width\<close> for the
  box \<open>(y1, x1, y2, x2)\<close> stored at \<open>k * 4\<close>, and \<open>score = scores[k]\<close>.
\<close>

theorem assembler_emits:
  assumes "buildDetectedObjects CLASSES width height boxes scores indexes classes = Inr objs"
  shows "length objs = length indexes
    \<and> (\<forall>i < length indexes.
         bbox (objs ! i) =
           (let box = (\<lambda>j. rd boxes (indexes ! i * 4 + j));
                minY = js_mul (box 0) height; minX = js_mul (box 1) width;
                maxY = js_mul (box 2) height; maxX = js_mul (box 3) width
            in (minX, minY, js_sub maxX minX, js_sub maxY minY))
         \<and> score (objs ! i) = rd scores (indexes ! i))"
proof -
  from assms have m: "map (detected_object CLASSES width height boxes scores classes) indexes
      = map Inr objs"
    by (simp add: buildDetectedObjects_Inr)
  then have len: "length objs = length indexes"
    by (metis length_map)
  have "detected_object CLASSES width height boxes scores classes (indexes ! i) = Inr (objs ! i)"
    if "i < length indexes" for i
    using that m len by (metis nth_map)
  then have "bbox (objs ! i) =
           (let box = (\<lambda>j. rd boxes (indexes ! i * 4 + j));
                minY = js_mul (box 0) height; minX = js_mul (box 1) width;
                maxY = js_mul (box 2) height; maxX = js_mul (box 3) width
            in (minX, minY, js_sub maxX minX, js_sub maxY minY))
         \<and> score (objs ! i) = rd scores (indexes ! i)"
    if "i < length indexes" for i
    using detected_object_Inr
      [of CLASSES width height boxes scores classes "indexes ! i" "objs ! i"] that
    by (simp add: Let_def)
  with len show ?thesis by blast
qed

theorem assembler_emits_witness:
  "buildDetectedObjects example_classes (Num 640) (Num 480)
     [Num 0.1, Num 0.1, Num 0.5, Num 0.5] [Num 0.9] [0] [0]
   = Inr [\<lparr>bbox = (Num 64, Num 48, Num 256, Num 192), class_name = ''bicycle'',
           score = Num 0.9\<rparr>]
   \<and> bbox (\<lparr>bbox = (Num 64, Num 48, Num 256, Num 192), class_name = ''bicycle'',
            score = Num 0.9\<rparr>)
     = (js_mul (Num 0.1) (Num 640), js_mul (Num 0.1) (Num 480),
        js_sub (js_mul (Num 0.5) (Num 640)) (js_mul (Num 0.1) (Num 640)),
        js_sub (js_mul (Num 0.5) (Num 480)) (js_mul (Num 0.1) (Num 480)))"
proof -
  have h: "buildDetectedObjects example_classes (Num 640) (Num 480)
     [Num 0.1, Num 0.1, Num 0.5, Num 0.5] [Num 0.9] [0] [0]
   = Inr [\<lparr>bbox = (Num 64, Num 48, Num 256, Num 192), class_name = ''bicycle'',
           score = Num 0.9\<rparr>]"
    by (simp add: assembler_eval example_classes_def)
  from assembler_emits [OF h] h show ?thesis
    by (simp add: Let_def rd_def elem_at_def)
qed

text \<open>
  Claim C9, amended. If the class index of some kept index, plus 1 (the offset that the
  assembler adds in both layouts), is not an index of the class table,
  \<^verbatim>\<open>buildDetectedObjects\<close> throws a \<^verbatim>\<open>TypeError\<close>: it returns no list, so no label
  is clamped or substituted.
\<close>

theorem class_out_of_range_throws:
  assumes "k \<in> set indexes" and "elem_at classes k = Some c" and "c + 1 \<notin> dom CLASSES"
  shows "buildDetectedObjects CLASSES width height boxes scores indexes classes = Inl TypeError"
proof -
  from assms(2,3) have "lookup_class CLASSES classes k = None"
    by (auto simp: lookup_class_def)
  then have "detected_object CLASSES width height boxes scores classes k = Inl TypeError"
    by (simp add: detected_object_def Let_def)
  with assms(1) show ?thesis
    unfolding buildDetectedObjects_def by (rule build_loop_Inl)
qed

theorem class_out_of_range_throws_witness:
  "(1::int) \<in> set [0, 1] \<and> elem_at [0, 2::int] 1 = Some 2 \<and> 2 + 1 \<notin> dom example_classes
   \<and> buildDetectedObjects example_classes (Num 640) (Num 480)
       [Num 0.1, Num 0.1, Num 0.5, Num 0.5, Num 0.2, Num 0.2, Num 0.6, Num 0.6]
       [Num 0.9, Num 0.8] [0, 1] [0, 2] = Inl TypeError"
proof -
  have h1: "(1::int) \<in> set [0, 1]" by simp
  have h2: "elem_at [0, 2::int] 1 = Some 2" by (simp add: elem_at_def)
  have h3: "2 + 1 \<notin> dom example_classes" by (simp add: example_classes_def)
  from class_out_of_range_throws [OF h1 h2 h3] h1 h2 h3 show ?thesis by blast
qed

section \<open>Properties of the detection call\<close>

lemma infer_assembles:
  "\<not> (base = ''yolov5s'' \<and> is_tensor img) \<Longrightarrow>
   \<exists>width height boxes scores.
     infer CLASSES tf base img maxNumBoxes nmsThresh minScore inputSize =
       buildDetectedObjects CLASSES width height boxes scores
         (kept_indexes tf base img maxNumBoxes nmsThresh minScore inputSize)
         (class_indexes tf base img inputSize)"
  by (auto simp: infer_def kept_indexes_def class_indexes_def Let_def split: prod.splits)

lemma infer_tensor_yolov5:
  "base = ''yolov5s'' \<and> is_tensor img \<Longrightarrow>
   infer CLASSES tf base img maxNumBoxes nmsThresh minScore inputSize = Inl TypeError"
  by (simp add: infer_def)

text \<open>
  Claim C3, as stated, fails on the packed layout. With the class table
  \<open>0 \<mapsto> person, 1 \<mapsto> bicycle, 2 \<mapsto> car\<close> and one packed anchor whose best class is
  class 0, the \<^verbatim>\<open>yolov5s\<close> call labels the kept anchor \<open>bicycle\<close>, the entry at
  \<open>classIndex + 1\<close>, and not \<open>person\<close>, the entry at \<open>classIndex + 0\<close>.
\<close>

theorem packed_offset_zero_counterexample:
  "detect example_classes example_engine ''yolov5s'' example_image
      (Num 20) (Num 0.5) (Num 0.5) (Num 640)
     = Inr [\<lparr>bbox = (Num 160, Num 120, Num 160, Num 120), class_name = ''bicycle'',
             score = Num 0.75\<rparr>]
   \<and> kept_indexes example_engine ''yolov5s'' example_image
       (Num 20) (Num 0.5) (Num 0.5) (Num 640) = [0]
   \<and> class_indexes example_engine ''yolov5s'' example_image (Num 640) = [0]
   \<and> example_classes (0 + 0) = Some ''person''
   \<and> example_classes (0 + 0) \<noteq> Some ''bicycle''"
  by (simp add: detect_eval)

text \<open>
  Claim C9, as stated, fails on the packed layout, whose offset the claim takes to be 0.
  With the class table \<open>1 \<mapsto> person, 2 \<mapsto> bicycle\<close> and one packed anchor whose
  best class is class 0, \<open>classIndex + 0\<close> is not an index of the table, yet the
  \<^verbatim>\<open>yolov5s\<close> call does not fail: it labels the kept anchor \<open>person\<close>, the entry at
  \<open>classIndex + 1\<close>.
\<close>

theorem packed_out_of_range_no_throw_counterexample:
  "class_indexes example_engine ''yolov5s'' example_image (Num 640) = [0]
   \<and> kept_indexes example_engine ''yolov5s'' example_image
       (Num 20) (Num 0.5) (Num 0.5) (Num 640) = [0]
   \<and> 0 + 0 \<notin> dom classes_from_one
   \<and> detect classes_from_one example_engine ''yolov5s'' example_image
       (Num 20) (Num 0.5) (Num 0.5) (Num 640)
     = Inr [\<lparr>bbox = (Num 160, Num 120, Num 160, Num 120), class_name = ''person'',
             score = Num 0.75\<rparr>]"
  by (simp add: detect_eval classes_from_one_def)

text \<open>
  Claim C3, amended. The class-table offset is the constant 1 in both layouts: whenever
  the detection call returns, for the dense branch and for the \<^verbatim>\<open>yolov5s\<close> branch
  alike, it returns one object per kept index, and the label of the object of a kept index
  is the class-table entry at \<open>classIndex + 1\<close>, \<open>classIndex\<close> being the class index of
  that kept index.
\<close>

theorem class_offset_is_one:
  assumes "detect CLASSES tf base img maxNumBoxes nmsThresh minScore inputSize = Inr objs"
  shows "length objs = length (kept_indexes tf base img maxNumBoxes nmsThresh minScore inputSize)
    \<and> (\<forall>i < length objs. \<exists>classIndex.
          elem_at (class_indexes tf base img inputSize)
            (kept_indexes tf base img maxNumBoxes nmsThresh minScore inputSize ! i)
            = Some classIndex
        \<and> CLASSES (classIndex + 1) = Some (class_name (objs ! i)))"
proof -
  let ?ks = "kept_indexes tf base img maxNumBoxes nmsThresh minScore inputSize"
  let ?cs = "class_indexes tf base img inputSize"
  from assms have "\<not> (base = ''yolov5s'' \<and> is_tensor img)"
    using infer_tensor_yolov5 [of base img CLASSES tf maxNumBoxes nmsThresh minScore inputSize]
    by (auto simp: detect_def)
  from infer_assembles [OF this, of CLASSES tf maxNumBoxes nmsThresh minScore inputSize] assms
  obtain width height boxes scores where
    "buildDetectedObjects CLASSES width height boxes scores ?ks ?cs = Inr objs"
    by (auto simp: detect_def)
  then have m: "map (detected_object CLASSES width height boxes scores ?cs) ?ks = map Inr objs"
    by (simp add: buildDetectedObjects_Inr)
  then have len: "length objs = length ?ks"
    by (metis length_map)
  have "\<exists>classIndex. elem_at ?cs (?ks ! i) = Some classIndex
        \<and> CLASSES (classIndex + 1) = Some (class_name (objs ! i))"
    if "i < length objs" for i
  proof -
    from that m len
    have "detected_object CLASSES width height boxes scores ?cs (?ks ! i) = Inr (objs ! i)"
      by (metis nth_map)
    then have "lookup_class CLASSES ?cs (?ks ! i) = Some (class_name (objs ! i))"
      by (simp add: detected_object_Inr)
    then show ?thesis
      by (auto simp: lookup_class_def split: option.splits)
  qed
  with len show ?thesis by blast
qed

theorem class_offset_is_one_witness:
  "detect example_classes example_engine ''lite_mobilenet_v2'' example_image
      (Num 20) (Num 0.5) (Num 0.5) (Num 640)
     = Inr [\<lparr>bbox = (Num 320, Num 180, Num 320, Num 180), class_name = ''car'',
             score = Num 0.75\<rparr>]
   \<and> elem_at (class_indexes example_engine ''lite_mobilenet_v2'' example_image (Num 640))
       (kept_indexes example_engine ''lite_mobilenet_v2'' example_image
          (Num 20) (Num 0.5) (Num 0.5) (Num 640) ! 0) = Some 1
   \<and> example_classes (1 + 1) = Some ''car''"
proof -
  have h: "detect example_classes example_engine ''lite_mobilenet_v2'' example_image
      (Num 20) (Num 0.5) (Num 0.5) (Num 640)
     = Inr [\<lparr>bbox = (Num 320, Num 180, Num 320, Num 180), class_name = ''car'',
             score = Num 0.75\<rparr>]"
    by (simp add: detect_eval)
  have c: "elem_at (class_indexes example_engine ''lite_mobilenet_v2'' example_image (Num 640))
       (kept_indexes example_engine ''lite_mobilenet_v2'' example_image
          (Num 20) (Num 0.5) (Num 0.5) (Num 640) ! 0) = Some 1"
    by (simp add: detect_eval)
  from class_offset_is_one [OF h] h c show ?thesis
    by auto
qed

text \<open>
  Claim C4, evaluated on the code. For an image of 1280 by 720 pixels whose only packed
  anchor decodes to the normalized box \<open>(0.25, 0.25, 0.5, 0.5)\<close>, the \<^verbatim>\<open>yolov5s\<close>
  call emits the bbox \<open>(160, 120, 160, 120)\<close>: the box is scaled by the constants 640
  and 480, not by the width and height of the image, which would give
  \<open>(320, 180, 320, 180)\<close>, as the dense branch does for the same normalized box.
\<close>

theorem yolov5_bbox_scaled_by_640_480:
  "img_width example_image = 1280 \<and> img_height example_image = 720
   \<and> getBoxesYoloV5 (yolo_data (execute_yolov5 example_engine example_image (Num 640))) 1 2
       (Num 640) = [Num 0.25, Num 0.25, Num 0.5, Num 0.5]
   \<and> detect example_classes example_engine ''yolov5s'' example_image
       (Num 20) (Num 0.5) (Num 0.5) (Num 640)
     = Inr [\<lparr>bbox = (Num 160, Num 120, Num 160, Num 120), class_name = ''bicycle'',
             score = Num 0.75\<rparr>]
   \<and> detect example_classes example_engine ''lite_mobilenet_v2'' example_image
       (Num 20) (Num 0.5) (Num 0.5) (Num 640)
     = Inr [\<lparr>bbox = (Num 320, Num 180, Num 320, Num 180), class_name = ''car'',
             score = Num 0.75\<rparr>]"
  by (simp add: detect_eval)

text \<open>
  Claim C8. An empty sequence of kept indices is not an error:
  \<^verbatim>\<open>buildDetectedObjects\<close> returns the empty list for it, and so does the detection
  call whenever suppression keeps nothing (a tensor input to the \<^verbatim>\<open>yolov5s\<close> branch
  fails before anything is handed to the assembler).
\<close>

theorem empty_kept_gives_empty_result:
  "buildDetectedObjects CLASSES width height boxes scores [] classes = Inr []
   \<and> (kept_indexes tf base img maxNumBoxes nmsThresh minScore inputSize = []
        \<and> \<not> (base = ''yolov5s'' \<and> is_tensor img)
      \<longrightarrow> detect CLASSES tf base img maxNumBoxes nmsThresh minScore inputSize = Inr [])"
proof (intro conjI impI)
  show e: "buildDetectedObjects CLASSES width height boxes scores [] classes = Inr []"
    for width height boxes scores
    by (simp add: buildDetectedObjects_def)
  assume a: "kept_indexes tf base img maxNumBoxes nmsThresh minScore inputSize = []
        \<and> \<not> (base = ''yolov5s'' \<and> is_tensor img)"
  then have "\<not> (base = ''yolov5s'' \<and> is_tensor img)" by simp
  from infer_assembles [OF this, of CLASSES tf maxNumBoxes nmsThresh minScore inputSize] a
  show "detect CLASSES tf base img maxNumBoxes nmsThresh minScore inputSize = Inr []"
    by (auto simp: detect_def buildDetectedObjects_def)
qed

theorem empty_kept_gives_empty_result_witness:
  "kept_indexes example_engine_none ''yolov5s'' example_image
      (Num 20) (Num 0.5) (Num 0.5) (Num 640) = []
   \<and> \<not> (''yolov5s'' = ''yolov5s'' \<and> is_tensor example_image)
   \<and> detect example_classes example_engine_none ''yolov5s'' example_image
       (Num 20) (Num 0.5) (Num 0.5) (Num 640) = Inr []"
proof -
  have h: "kept_indexes example_engine_none ''yolov5s'' example_image
      (Num 20) (Num 0.5) (Num 0.5) (Num 640) = []
   \<and> \<not> (''yolov5s'' = ''yolov5s'' \<and> is_tensor example_image)"
    by (simp add: kept_indexes_def example_engine_none_def example_engine_def
        example_image_def Let_def)
  from empty_kept_gives_empty_result
    [of example_classes "Num 0" "Num 0" "[]" "[]" "[]" example_engine_none "''yolov5s''"
        example_image "Num 20" "Num 0.5" "Num 0.5" "Num 640"] h
  show ?thesis by blast
qed

section \<open>Properties of the suppressor\<close>

lemma length_greedy: "length (greedy boxes thr n cs) \<le> n"
  by (induction boxes thr n cs rule: greedy.induct) auto

lemma set_greedy: "set (greedy boxes thr n cs) \<subseteq> set cs"
  by (induction boxes thr n cs rule: greedy.induct) auto

lemma sorted_wrt_greedy:
  "sorted_wrt P cs \<Longrightarrow> sorted_wrt P (greedy boxes thr n cs)"
proof (induction boxes thr n cs rule: greedy.induct)
  case (3 boxes thr n c cs)
  let ?rest = "filter (\<lambda>d. \<not> thr < iou (box_at boxes c) (box_at boxes d)) cs"
  from "3.prems" have "sorted_wrt P ?rest"
    by (simp add: sorted_wrt_filter)
  then have "sorted_wrt P (greedy boxes thr n ?rest)"
    by (rule "3.IH")
  moreover have "\<forall>x \<in> set (greedy boxes thr n ?rest). P c x"
    using set_greedy [of boxes thr n ?rest] "3.prems" by auto
  ultimately show ?case by simp
qed simp_all

lemma set_candidates:
  "set (candidates scores minScore) = {k. k < length scores \<and> minScore \<le> scores ! k}"
  by (auto simp: candidates_def)

lemma sorted_candidates:
  "sorted_wrt (\<lambda>a b. scores ! b \<le> scores ! a) (candidates scores minScore)"
proof -
  have "sorted (map (\<lambda>k. - (scores ! k)) (candidates scores minScore))"
    unfolding candidates_def by (rule sorted_sort_key)
  then show ?thesis
    by (simp add: sorted_wrt_map)
qed

text \<open>
  Claim C5. On well-shaped input (four box coordinates per score) the suppressor returns
  a sequence of kept indices; it has at most \<open>maxNumBoxes\<close> entries, every kept index has
  a score of at least \<open>minScore\<close>, and the scores of the kept indices are in descending
  order.
\<close>

theorem suppressor_contract:
  assumes "length boxes = 4 * length scores"
  shows "\<exists>kept. suppress boxes scores maxNumBoxes iouThreshold minScore = Some kept
    \<and> length kept \<le> maxNumBoxes
    \<and> (\<forall>k \<in> set kept. k < length scores \<and> minScore \<le> scores ! k)
    \<and> sorted_wrt (\<lambda>a b. b \<le> a) (map (\<lambda>k. scores ! k) kept)"
proof -
  let ?kept = "greedy boxes iouThreshold maxNumBoxes (candidates scores minScore)"
  have "suppress boxes scores maxNumBoxes iouThreshold minScore = Some ?kept"
    using assms by (simp add: suppress_def)
  moreover have "length ?kept \<le> maxNumBoxes"
    by (rule length_greedy)
  moreover have "\<forall>k \<in> set ?kept. k < length scores \<and> minScore \<le> scores ! k"
    using set_greedy [of boxes iouThreshold maxNumBoxes "candidates scores minScore"]
    by (auto simp: set_candidates)
  moreover have "sorted_wrt (\<lambda>a b. b \<le> a) (map (\<lambda>k. scores ! k) ?kept)"
    using sorted_wrt_greedy [OF sorted_candidates]
    by (simp add: sorted_wrt_map)
  ultimately show ?thesis by blast
qed

theorem suppressor_contract_witness:
  "length [0.1, 0.1, 0.5, 0.5, 0.12, 0.12, 0.52, 0.52, 0.6, 0.6, 0.9, 0.9 :: real]
     = 4 * length [0.8, 0.9, 0.7 :: real]
   \<and> suppress [0.1, 0.1, 0.5, 0.5, 0.12, 0.12, 0.52, 0.52, 0.6, 0.6, 0.9, 0.9]
       [0.8, 0.9, 0.7] 20 0.5 0.5 = Some [1, 2]
   \<and> length [1, 2 :: nat] \<le> 20
   \<and> (0.5::real) \<le> [0.8, 0.9, 0.7] ! 1 \<and> (0.5::real) \<le> [0.8, 0.9, 0.7] ! 2
   \<and> ([0.8, 0.9, 0.7] ! 2 :: real) \<le> [0.8, 0.9, 0.7] ! 1"
proof -
  have h: "length [0.1, 0.1, 0.5, 0.5, 0.12, 0.12, 0.52, 0.52, 0.6, 0.6, 0.9, 0.9 :: real]
     = 4 * length [0.8, 0.9, 0.7 :: real]"
    by simp
  have v: "suppress [0.1, 0.1, 0.5, 0.5, 0.12, 0.12, 0.52, 0.52, 0.6, 0.6, 0.9, 0.9]
       [0.8, 0.9, 0.7] 20 0.5 0.5 = Some [1, 2]"
    by (simp add: suppress_def candidates_def iou_def box_at_def upt_rec numeral_eq_Suc)
  from suppressor_contract [OF h, of 20 "0.5" "0.5"] v h
  show ?thesis by auto
qed

end
